theory Spec2Isabelle
  imports Complex_Main
begin

section \<open>The request instrumentation layer of the Flask application\<close>

text \<open>
  The development embeds \<^verbatim>\<open>src/flask-app/app.py\<close>: the decorator
  \<^verbatim>\<open>with_metrics\<close> with its inner function \<^verbatim>\<open>wrapped\<close>, the
  Prometheus metric families it updates, and the two handlers the scenarios use.
  Exceptions are values of a sum type (\<open>Inl\<close> the raised exception), the module's global
  state and the wall clock are a record that every function takes and returns.
\<close>

subsection \<open>Python values and exceptions\<close>

text \<open>
  The values a handler returns. \<open>PResponse body status_code\<close> is a Flask response
  object, the only kind of value here with an attribute \<^verbatim>\<open>status_code\<close>;
  \<open>PTuple\<close> is a tuple of any length. Booleans, which Python counts as instances of
  \<^verbatim>\<open>int\<close>, are not part of this universe.
\<close>

datatype pyval =
    PNone
  | PInt int
  | PStr string
  | PList "pyval list"
  | PDict "(string \<times> pyval) list"
  | PTuple "pyval list"
  | PResponse pyval int

text \<open>
  The exceptions that derive from \<^verbatim>\<open>Exception\<close>: Werkzeug's
  \<^verbatim>\<open>HTTPException\<close> with its attribute \<^verbatim>\<open>code\<close> (\<open>None\<close> on the base
  class), and every other exception, by the name of its class. What line 34 and line 50 do
  not catch (\<^verbatim>\<open>SystemExit\<close>, \<^verbatim>\<open>KeyboardInterrupt\<close>) is not an error of a
  handler and is not part of this type.
\<close>

datatype exn =
    HTTPException "int option"
  | OtherException string

text \<open>A Python float: what \<^verbatim>\<open>float(s)\<close> can return.\<close>

datatype pyfloat = Finite real | PosInf | NegInf | NaN

subsection \<open>The request and the global state\<close>

text \<open>
  Of Flask's request object the code reads \<^verbatim>\<open>request.method\<close> and the query
  parameters \<^verbatim>\<open>request.args\<close>, a multi-dictionary whose \<^verbatim>\<open>get\<close> returns
  the first value of a key, or \<^verbatim>\<open>None\<close>.
\<close>

record request =
  http_method :: string
  args :: "(string \<times> string) list"

definition args_get :: "request \<Rightarrow> string \<Rightarrow> string option" where
  "args_get req key = map_of (args req) key"

text \<open>Truth value of \<^verbatim>\<open>request.args.get(key)\<close>: a string that is not empty.\<close>

definition truthy :: "string option \<Rightarrow> bool" where
  "truthy v = (case v of None \<Rightarrow> False | Some x \<Rightarrow> x \<noteq> [])"

text \<open>An element of the in-memory store \<^verbatim>\<open>items\<close>: the dictionary
  \<^verbatim>\<open>{'id': ..., 'data': ...}\<close>.\<close>

record item =
  ident :: int
  payload :: pyval

text \<open>
  The state: the reading of \<^verbatim>\<open>time.time()\<close>, the store, and the five metric
  families. A counter family maps a tuple of label values to the count of its series, and a
  series never touched reads 0. A histogram family maps the labels to the observations made
  so far, oldest first (count, sum and bucket counts are functions of that list). The label
  \<^verbatim>\<open>code\<close> is \<^verbatim>\<open>str(status)\<close> in the source, read back with
  \<^verbatim>\<open>int(code)\<close>; the model keys the series by the integer itself.
\<close>

record world =
  clock :: real
  items :: "item list"
  HTTP_REQUESTS :: "string \<times> string \<times> int \<Rightarrow> nat"
  HTTP_DURATION :: "string \<times> string \<times> int \<Rightarrow> real list"
  HTTP_ERRORS :: "string \<times> string \<times> int \<Rightarrow> nat"
  HTTP_SLOW :: "string \<times> string \<Rightarrow> nat"
  LAST_DURATION :: "string \<times> string \<Rightarrow> real list"

type_synonym handler = "world \<Rightarrow> (exn + pyval) \<times> world"

definition SLOW_THRESHOLD :: real where
  "SLOW_THRESHOLD = 5.0"

text \<open>\<^verbatim>\<open>Counter.labels(...).inc()\<close> and \<^verbatim>\<open>Histogram.labels(...).observe(v)\<close>.\<close>

definition inc :: "('k \<Rightarrow> nat) \<Rightarrow> 'k \<Rightarrow> ('k \<Rightarrow> nat)" where
  "inc family labels = family(labels := family labels + 1)"

definition observe :: "('k \<Rightarrow> real list) \<Rightarrow> 'k \<Rightarrow> real \<Rightarrow> ('k \<Rightarrow> real list)" where
  "observe family labels v = family(labels := family labels @ [v])"

subsection \<open>The simulation controls (lines 30 to 38)\<close>

text \<open>
  \<^verbatim>\<open>time.sleep(x)\<close>: a finite, non-negative \<open>x\<close> suspends the request for \<open>x\<close>
  seconds, so the clock reads \<open>x\<close> more afterwards; a negative number and NaN raise
  \<^verbatim>\<open>ValueError\<close>, infinity raises \<^verbatim>\<open>OverflowError\<close>. (Python also raises
  \<^verbatim>\<open>OverflowError\<close> for a finite number beyond the range of the platform's timer;
  the model lets such a request sleep.)
\<close>

fun time_sleep :: "pyfloat \<Rightarrow> world \<Rightarrow> exn + world" where
  "time_sleep (Finite x) s =
     (if x < 0 then Inl (OtherException ''ValueError'')
      else Inr (s\<lparr>clock := clock s + x\<rparr>))"
| "time_sleep PosInf s = Inl (OtherException ''OverflowError'')"
| "time_sleep NegInf s = Inl (OtherException ''ValueError'')"
| "time_sleep NaN s = Inl (OtherException ''ValueError'')"

text \<open>
  Lines 30 to 35. The builtin \<^verbatim>\<open>float\<close> is a parameter, \<open>float_of\<close>: it returns
  the number, or raises. Whatever \<^verbatim>\<open>float\<close> or \<^verbatim>\<open>time.sleep\<close> raises is
  caught and dropped.
\<close>

definition inject_delay :: "(string \<Rightarrow> exn + pyfloat) \<Rightarrow> request \<Rightarrow> world \<Rightarrow> world" where
  "inject_delay float_of req s =
     (case args_get req ''delay'' of
        None \<Rightarrow> s
      | Some delay \<Rightarrow>
          if delay = [] then s
          else (case float_of delay of
                  Inl e \<Rightarrow> s
                | Inr x \<Rightarrow> (case time_sleep x s of Inl e \<Rightarrow> s | Inr s' \<Rightarrow> s')))"

subsection \<open>Resolving the status (lines 41 to 58)\<close>

text \<open>
  The tests of line 45 and line 47 on a returned value, and the reads
  \<^verbatim>\<open>response[1]\<close> and \<^verbatim>\<open>response.status_code\<close>. The source reads the second
  element only of a tuple of more than one element whose second element is an integer, and
  the attribute only where it exists; \<open>int_value\<close> and \<open>status_code\<close> are used under
  these tests only.
\<close>

fun isinstance_tuple :: "pyval \<Rightarrow> bool" where
  "isinstance_tuple (PTuple xs) = True"
| "isinstance_tuple v = False"

fun isinstance_int :: "pyval \<Rightarrow> bool" where
  "isinstance_int (PInt n) = True"
| "isinstance_int v = False"

fun elements :: "pyval \<Rightarrow> pyval list" where
  "elements (PTuple xs) = xs"
| "elements v = []"

fun int_value :: "pyval \<Rightarrow> int" where
  "int_value (PInt n) = n"
| "int_value v = 0"

fun hasattr_status_code :: "pyval \<Rightarrow> bool" where
  "hasattr_status_code (PResponse body sc) = True"
| "hasattr_status_code v = False"

fun status_code :: "pyval \<Rightarrow> int" where
  "status_code (PResponse body sc) = sc"
| "status_code v = 0"

text \<open>Lines 41 and 45 to 48: the status after a normal return.\<close>

definition status_of_response :: "pyval \<Rightarrow> int" where
  "status_of_response response =
     (if isinstance_tuple response \<and> length (elements response) > 1
         \<and> isinstance_int (elements response ! 1)
      then int_value (elements response ! 1)
      else if hasattr_status_code response then status_code response
      else 200)"

text \<open>Lines 53 to 57: the status after an exception; \<^verbatim>\<open>getattr(e, 'code', None)\<close>
  is false for \<^verbatim>\<open>None\<close> and for 0.\<close>

fun status_of_exception :: "exn \<Rightarrow> int" where
  "status_of_exception (HTTPException (Some c)) = (if c \<noteq> 0 then c else 500)"
| "status_of_exception (HTTPException None) = 500"
| "status_of_exception (OtherException name) = 500"

subsection \<open>Recording (the \<^verbatim>\<open>finally\<close> block, lines 60 to 70)\<close>

definition record_metrics :: "string \<Rightarrow> string \<Rightarrow> int \<Rightarrow> real \<Rightarrow> world \<Rightarrow> world" where
  "record_metrics m route status duration s =
     (let s1 = s\<lparr>HTTP_REQUESTS := inc (HTTP_REQUESTS s) (m, route, status)\<rparr>;
          s2 = s1\<lparr>HTTP_DURATION := observe (HTTP_DURATION s1) (m, route, status) duration\<rparr>;
          s3 = s2\<lparr>LAST_DURATION := observe (LAST_DURATION s2) (m, route) duration\<rparr>;
          s4 = (if status \<ge> 500
                then s3\<lparr>HTTP_ERRORS := inc (HTTP_ERRORS s3) (m, route, status)\<rparr>
                else s3)
      in if duration \<ge> SLOW_THRESHOLD
         then s4\<lparr>HTTP_SLOW := inc (HTTP_SLOW s4) (m, route)\<rparr>
         else s4)"

subsection \<open>The wrapper (lines 26 to 70)\<close>

text \<open>
  \<open>wrapped float_of route f req s\<close> is one call of the decorated handler \<open>f\<close> on the
  request \<open>req\<close> in the state \<open>s\<close>. \<^verbatim>\<open>abort(500)\<close> of line 38 raises an
  \<^verbatim>\<open>HTTPException\<close> with code 500; it stands before the \<^verbatim>\<open>try\<close> statement,
  so the exception leaves the function at once. \<^verbatim>\<open>start\<close> is read on line 40,
  after the delay. The \<^verbatim>\<open>finally\<close> block runs after the handler has returned or
  raised, and the function then returns the response or raises the exception again.
\<close>

definition wrapped :: "(string \<Rightarrow> exn + pyfloat) \<Rightarrow> string \<Rightarrow> handler \<Rightarrow> request \<Rightarrow> handler" where
  "wrapped float_of route f req s =
     (let s1 = inject_delay float_of req s in
      if truthy (args_get req ''fail'') then (Inl (HTTPException (Some 500)), s1)
      else
        (let start = clock s1;
             (outcome, s2) = f s1;
             status = (case outcome of
                         Inr response \<Rightarrow> status_of_response response
                       | Inl e \<Rightarrow> status_of_exception e);
             duration = clock s2 - start
         in (outcome, record_metrics (http_method req) route status duration s2)))"

subsection \<open>The handlers of the scenarios\<close>

text \<open>\<^verbatim>\<open>jsonify(x)\<close> builds a response with status code 200.\<close>

definition jsonify :: "pyval \<Rightarrow> pyval" where
  "jsonify body = PResponse body 200"

definition item_dict :: "item \<Rightarrow> pyval" where
  "item_dict it = PDict [(''id'', PInt (ident it)), (''data'', payload it)]"

text \<open>\<^verbatim>\<open>list_items\<close>, lines 96 to 115.\<close>

definition list_items :: handler where
  "list_items s = (Inr (jsonify (PList (map item_dict (items s)))), s)"

text \<open>\<^verbatim>\<open>get_item\<close>, lines 151 to 178: the loop returns the first item with the
  identifier, and \<^verbatim>\<open>abort(404)\<close> raises when there is none.\<close>

fun get_item_loop :: "item list \<Rightarrow> int \<Rightarrow> exn + pyval" where
  "get_item_loop [] item_id = Inl (HTTPException (Some 404))"
| "get_item_loop (it # rest) item_id =
     (if ident it = item_id then Inr (jsonify (item_dict it))
      else get_item_loop rest item_id)"

definition get_item :: "int \<Rightarrow> handler" where
  "get_item item_id s = (get_item_loop (items s) item_id, s)"

subsection \<open>Concrete inputs for the scenarios\<close>

text \<open>
  A fragment of the builtin \<^verbatim>\<open>float\<close> for the scenarios: an optional sign, digits,
  and an optional point with digits (at least one digit in all), read exactly. The builtin
  accepts more strings (exponents, \<^verbatim>\<open>inf\<close>, \<^verbatim>\<open>nan\<close>, blanks around the number);
  the theorems below hold for every \<open>float_of\<close>, and this one only instantiates them.
\<close>

definition digit_of :: "char \<Rightarrow> nat option" where
  "digit_of c =
     (if 48 \<le> (of_char c :: nat) \<and> (of_char c :: nat) \<le> 57 then Some (of_char c - 48)
      else None)"

fun digits_value :: "string \<Rightarrow> nat \<Rightarrow> nat option" where
  "digits_value [] acc = Some acc"
| "digits_value (c # cs) acc =
     (case digit_of c of None \<Rightarrow> None | Some d \<Rightarrow> digits_value cs (10 * acc + d))"

definition unsigned_literal :: "string \<Rightarrow> real option" where
  "unsigned_literal str =
     (let whole = takeWhile (\<lambda>c. c \<noteq> CHR ''.'') str;
          rest = dropWhile (\<lambda>c. c \<noteq> CHR ''.'') str;
          frac = tl rest
      in if whole = [] \<and> frac = [] then None
         else (case (digits_value whole 0, digits_value frac 0) of
                 (Some a, Some b) \<Rightarrow> Some (real a + real b / 10 ^ length frac)
               | _ \<Rightarrow> None))"

definition float_literal :: "string \<Rightarrow> exn + pyfloat" where
  "float_literal str =
     (let negative = (case str of [] \<Rightarrow> False | c # cs \<Rightarrow> c = CHR ''-'');
          body = (case str of
                    [] \<Rightarrow> []
                  | c # cs \<Rightarrow> if c = CHR ''-'' \<or> c = CHR ''+'' then cs else str)
      in case unsigned_literal body of
           None \<Rightarrow> Inl (OtherException ''ValueError'')
         | Some x \<Rightarrow> Inr (Finite (if negative then - x else x)))"

text \<open>A handler whose execution takes \<open>dt\<close> seconds of the clock.\<close>

definition lasting :: "real \<Rightarrow> handler \<Rightarrow> handler" where
  "lasting dt f s = (case f s of (outcome, s') \<Rightarrow> (outcome, s'\<lparr>clock := clock s' + dt\<rparr>))"

text \<open>The state at process start: an empty store and no series touched.\<close>

definition world0 :: world where
  "world0 = \<lparr>clock = 0, items = [],
             HTTP_REQUESTS = (\<lambda>labels. 0), HTTP_DURATION = (\<lambda>labels. []),
             HTTP_ERRORS = (\<lambda>labels. 0), HTTP_SLOW = (\<lambda>labels. 0),
             LAST_DURATION = (\<lambda>labels. [])\<rparr>"

text \<open>The request with every value of one query parameter removed.\<close>

definition without_param :: "string \<Rightarrow> request \<Rightarrow> request" where
  "without_param key req = req\<lparr>args := filter (\<lambda>(k, v). k \<noteq> key) (args req)\<rparr>"

text \<open>A store with one item, and a request \<^verbatim>\<open>GET\<close> with no query parameter.\<close>

definition store1 :: world where
  "store1 = world0\<lparr>items := [\<lparr>ident = 1, payload = PDict []\<rparr>]\<rparr>"

definition plain_get :: request where
  "plain_get = \<lparr>http_method = ''GET'', args = []\<rparr>"

text \<open>Requests whose delay does not parse, and whose delay is negative.\<close>

definition bad_delay_get :: request where
  "bad_delay_get = \<lparr>http_method = ''GET'', args = [(''delay'', ''abc'')]\<rparr>"

definition negative_delay_get :: request where
  "negative_delay_get = \<lparr>http_method = ''GET'', args = [(''delay'', ''-1'')]\<rparr>"

text \<open>A handler that returns the triple \<^verbatim>\<open>('', 202, {})\<close> of body, status and
  headers, a form of return value that Flask accepts.\<close>

definition accepted_with_headers :: handler where
  "accepted_with_headers s = (Inr (PTuple [PStr [], PInt 202, PDict []]), s)"

subsection \<open>The status of a returned value, in the words of the specification\<close>

text \<open>
  Section 4.2 of the specification: a structured pair whose second element is an integer
  gives that integer; otherwise a value with a status property gives it; otherwise 200.
  This function follows those words, a pair being a tuple of two elements; it is compared
  with \<open>status_of_response\<close>, which follows the source.
\<close>

fun spec_status_of_return :: "pyval \<Rightarrow> int" where
  "spec_status_of_return (PTuple [body, PInt n]) = n"
| "spec_status_of_return (PResponse body sc) = sc"
| "spec_status_of_return v = 200"

section \<open>Properties of the wrapper\<close>

subsection \<open>What each step changes\<close>

lemma record_metrics_requests:
  "HTTP_REQUESTS (record_metrics m route status duration s) = inc (HTTP_REQUESTS s) (m, route, status)"
  by (simp add: record_metrics_def Let_def)

lemma record_metrics_errors:
  "HTTP_ERRORS (record_metrics m route status duration s) =
     (if status \<ge> 500 then inc (HTTP_ERRORS s) (m, route, status) else HTTP_ERRORS s)"
  by (simp add: record_metrics_def Let_def)

lemma record_metrics_slow:
  "HTTP_SLOW (record_metrics m route status duration s) =
     (if duration \<ge> 5 then inc (HTTP_SLOW s) (m, route) else HTTP_SLOW s)"
  by (simp add: record_metrics_def Let_def SLOW_THRESHOLD_def)

lemma record_metrics_frame:
  "clock (record_metrics m route status duration s) = clock s"
  "items (record_metrics m route status duration s) = items s"
  by (simp_all add: record_metrics_def Let_def)

lemma time_sleep_Inr:
  "time_sleep x s = Inr s' \<Longrightarrow> \<exists>d. s' = s\<lparr>clock := clock s + d\<rparr>"
  by (cases x) (auto split: if_splits)

lemma inject_delay_clock_only:
  "\<exists>d. inject_delay float_of req s = s\<lparr>clock := clock s + d\<rparr>"
proof (cases "\<exists>delay x s'. args_get req ''delay'' = Some delay \<and> delay \<noteq> []
                 \<and> float_of delay = Inr x \<and> time_sleep x s = Inr s'")
  case True
  then obtain delay x s' where h: "args_get req ''delay'' = Some delay" "delay \<noteq> []"
      "float_of delay = Inr x" "time_sleep x s = Inr s'"
    by blast
  then have "inject_delay float_of req s = s'"
    by (simp add: inject_delay_def)
  with time_sleep_Inr [OF h(4)] show ?thesis by simp
next
  case False
  then have "inject_delay float_of req s = s"
    by (auto simp: inject_delay_def split: option.splits sum.splits)
  then have "inject_delay float_of req s = s\<lparr>clock := clock s + 0\<rparr>" by simp
  then show ?thesis by blast
qed

lemma inject_delay_frame:
  "items (inject_delay float_of req s) = items s"
  "HTTP_REQUESTS (inject_delay float_of req s) = HTTP_REQUESTS s"
  "HTTP_DURATION (inject_delay float_of req s) = HTTP_DURATION s"
  "HTTP_ERRORS (inject_delay float_of req s) = HTTP_ERRORS s"
  "HTTP_SLOW (inject_delay float_of req s) = HTTP_SLOW s"
  "LAST_DURATION (inject_delay float_of req s) = LAST_DURATION s"
  using inject_delay_clock_only [of float_of req s] by auto

lemma wrapped_fail:
  "truthy (args_get req ''fail'') \<Longrightarrow>
   wrapped float_of route f req s = (Inl (HTTPException (Some 500)), inject_delay float_of req s)"
  by (simp add: wrapped_def Let_def)

lemma wrapped_run:
  "\<not> truthy (args_get req ''fail'') \<Longrightarrow> f (inject_delay float_of req s) = (outcome, s2) \<Longrightarrow>
   wrapped float_of route f req s =
     (outcome,
      record_metrics (http_method req) route
        (case outcome of Inr response \<Rightarrow> status_of_response response
                       | Inl e \<Rightarrow> status_of_exception e)
        (clock s2 - clock (inject_delay float_of req s)) s2)"
  by (simp add: wrapped_def Let_def)

lemma status_of_response_cases:
  "status_of_response v =
     (case v of PTuple (body # PInt n # rest) \<Rightarrow> n | PResponse body sc \<Rightarrow> sc | _ \<Rightarrow> 200)"
  by (auto simp: status_of_response_def split: pyval.splits list.splits)

lemma status_of_exception_cases:
  "status_of_exception e =
     (case e of HTTPException (Some c) \<Rightarrow> if c = 0 then 500 else c | _ \<Rightarrow> 500)"
  by (cases e rule: status_of_exception.cases) auto

lemma map_of_without:
  "map_of (filter (\<lambda>(k, v). k \<noteq> a) xs) b = (if b = a then None else map_of xs b)"
  by (induction xs) auto

lemma wrapped_without_delay:
  assumes "inject_delay float_of req s = s"
  shows "wrapped float_of route f req s = wrapped float_of route f (without_param ''delay'' req) s"
proof -
  have a: "args_get (without_param ''delay'' req) ''fail'' = args_get req ''fail''"
    by (simp add: args_get_def without_param_def map_of_without)
  have b: "inject_delay float_of (without_param ''delay'' req) s = s"
    by (simp add: inject_delay_def args_get_def without_param_def map_of_without)
  have c: "http_method (without_param ''delay'' req) = http_method req"
    by (simp add: without_param_def)
  show ?thesis
    by (simp add: wrapped_def a b c assms)
qed

lemma get_item_absent:
  "item_id \<notin> ident ` set (items s) \<Longrightarrow> get_item item_id s = (Inl (HTTPException (Some 404)), s)"
proof -
  have "item_id \<notin> ident ` set xs \<Longrightarrow> get_item_loop xs item_id = Inl (HTTPException (Some 404))" for xs
    by (induction xs) auto
  then show "item_id \<notin> ident ` set (items s) \<Longrightarrow> ?thesis"
    by (simp add: get_item_def)
qed

lemma wrapped_no_delay:
  assumes "inject_delay float_of req s = s" and "\<not> truthy (args_get req ''fail'')"
  shows "wrapped float_of route f req s =
           (fst (f s),
            record_metrics (http_method req) route
              (case fst (f s) of Inr response \<Rightarrow> status_of_response response
                               | Inl e \<Rightarrow> status_of_exception e)
              (clock (snd (f s)) - clock s) (snd (f s)))"
  using assms by (simp add: wrapped_def Let_def split: prod.splits)

lemma spec_status_agrees:
  "length (elements v) \<le> 2 \<Longrightarrow> status_of_response v = spec_status_of_return v"
  by (cases v rule: spec_status_of_return.cases) (auto simp: status_of_response_def)

subsection \<open>Facts about the concrete inputs\<close>

lemma float_literal_6: "float_literal ''6.0'' = Inr (Finite 6)"
  by (simp add: float_literal_def unsigned_literal_def digit_of_def)

lemma plain_get_simps:
  "\<not> truthy (args_get plain_get key)" "inject_delay float_of plain_get s = s"
  "http_method plain_get = ''GET''"
  by (simp_all add: plain_get_def args_get_def truthy_def inject_delay_def)

lemma get_item_7_store1: "get_item 7 store1 = (Inl (HTTPException (Some 404)), store1)"
  by (simp add: get_item_def store1_def world0_def)

lemma float_literal_abc: "float_literal ''abc'' = Inl (OtherException ''ValueError'')"
  by (simp add: float_literal_def unsigned_literal_def digit_of_def)

lemma float_literal_minus_1: "float_literal ''-1'' = Inr (Finite (- 1))"
  by (simp add: float_literal_def unsigned_literal_def digit_of_def)

lemma list_items_store1:
  "list_items store1 = (Inr (jsonify (PList [item_dict \<lparr>ident = 1, payload = PDict []\<rparr>])), store1)"
  by (simp add: list_items_def store1_def world0_def)

lemma lasting_list_items_store1:
  "lasting dt list_items store1
     = (Inr (jsonify (PList [item_dict \<lparr>ident = 1, payload = PDict []\<rparr>])),
        store1\<lparr>clock := dt\<rparr>)"
  by (simp add: lasting_def list_items_store1) (simp add: store1_def world0_def)

section \<open>The claims\<close>

subsection \<open>The forced failure\<close>

text \<open>
  C1 (the code departs from the claim). The claim: metrics are recorded exactly once per
  request on every exit path, the injected short-circuit included. In the code a request
  whose first \<^verbatim>\<open>fail\<close> parameter is a non-empty string leaves through
  \<^verbatim>\<open>abort(500)\<close> on line 38, before the \<^verbatim>\<open>try\<close> statement: whatever the
  handler, the state and the other parameters are, the request counter and the two
  histograms are the same after the call as before, so the recording step ran zero times.
\<close>

theorem forced_failure_bypasses_recording:
  "HTTP_REQUESTS (snd (wrapped float_of route f
      \<lparr>http_method = m, args = (''fail'', c # cs) # rest\<rparr> s)) = HTTP_REQUESTS s
   \<and> HTTP_DURATION (snd (wrapped float_of route f
      \<lparr>http_method = m, args = (''fail'', c # cs) # rest\<rparr> s)) = HTTP_DURATION s
   \<and> LAST_DURATION (snd (wrapped float_of route f
      \<lparr>http_method = m, args = (''fail'', c # cs) # rest\<rparr> s)) = LAST_DURATION s"
  by (simp add: wrapped_fail args_get_def truthy_def inject_delay_frame)

text \<open>
  C2 (the code departs from the claim). The claim: a request with the forced-failure
  directive never invokes the handler, resolves to 500 and increments the request counter
  and the error counter for (method, route, 500). In the code the request
  \<^verbatim>\<open>?fail=1\<close> raises the exception of \<^verbatim>\<open>abort(500)\<close> and returns the state
  it was given: the handler \<open>f\<close> is not run, and no counter moves.
\<close>

theorem forced_failure_leaves_counters:
  "wrapped float_of route f \<lparr>http_method = m, args = [(''fail'', ''1'')]\<rparr> s =
     (Inl (HTTPException (Some 500)), s)"
  by (simp add: wrapped_def args_get_def truthy_def inject_delay_def)

subsection \<open>The delay and the measured time\<close>

text \<open>
  C3 (the code departs from the claim). The claim: timing starts before the delay, so a
  request with \<^verbatim>\<open>delay=6.0\<close> increments the slow-request counter. In the code
  \<^verbatim>\<open>start\<close> is read on line 40, after the sleep of line 33: for the request
  \<^verbatim>\<open>GET /items?delay=6.0\<close> and a handler that runs for a hundredth of a second, the
  clock moves by 6.01 seconds, the duration observed is 0.01 seconds, and the slow-request
  counter is unchanged.
\<close>

theorem delay_outside_measured_time:
  "HTTP_SLOW (snd (wrapped float_literal ''/items'' (lasting 0.01 list_items)
       \<lparr>http_method = ''GET'', args = [(''delay'', ''6.0'')]\<rparr> s)) = HTTP_SLOW s
   \<and> clock (snd (wrapped float_literal ''/items'' (lasting 0.01 list_items)
       \<lparr>http_method = ''GET'', args = [(''delay'', ''6.0'')]\<rparr> s)) = clock s + 6.01
   \<and> LAST_DURATION (snd (wrapped float_literal ''/items'' (lasting 0.01 list_items)
       \<lparr>http_method = ''GET'', args = [(''delay'', ''6.0'')]\<rparr> s))
       = observe (LAST_DURATION s) (''GET'', ''/items'') 0.01"
  by (simp add: wrapped_def args_get_def truthy_def inject_delay_def float_literal_6
      lasting_def list_items_def record_metrics_def SLOW_THRESHOLD_def Let_def)

subsection \<open>The resolved status\<close>

text \<open>
  C4. When the handler raises, the request counter that moves is the one labelled with the
  exception's own code if the exception is an \<^verbatim>\<open>HTTPException\<close> that carries a code
  (a code that is not 0, which Python counts as false), and the one labelled 500 for every
  other exception.
\<close>

theorem raised_error_status:
  assumes "\<not> truthy (args_get req ''fail'')"
    and "f (inject_delay float_of req s) = (Inl e, s2)"
  shows "HTTP_REQUESTS (snd (wrapped float_of route f req s)) =
           inc (HTTP_REQUESTS s2)
             (http_method req, route,
              (case e of HTTPException (Some c) \<Rightarrow> if c = 0 then 500 else c | _ \<Rightarrow> 500))"
  using assms
  by (simp add: wrapped_run [where outcome = "Inl e" and ?s2.0 = s2]
      record_metrics_requests status_of_exception_cases)

theorem raised_error_status_witness:
  "\<not> truthy (args_get plain_get ''fail'')
   \<and> get_item 7 (inject_delay float_literal plain_get store1) = (Inl (HTTPException (Some 404)), store1)
   \<and> HTTP_REQUESTS (snd (wrapped float_literal ''/items/<id>'' (get_item 7) plain_get store1))
       = inc (HTTP_REQUESTS store1) (''GET'', ''/items/<id>'', 404)"
  using raised_error_status [of plain_get "get_item 7" float_literal store1
      "HTTPException (Some 404)" store1 "''/items/<id>''"]
  by (simp add: plain_get_simps get_item_7_store1)

text \<open>
  C5 (counterexample). The claim reads the second element only off a structured pair. The
  handler \<open>accepted_with_headers\<close> returns a tuple of three elements whose second is the
  integer 202: in the words of the claim its code is the default 200, and the code counts
  the request under 202 and not under 200.
\<close>

theorem pair_status_counterexample:
  "spec_status_of_return (PTuple [PStr [], PInt 202, PDict []]) = 200
   \<and> HTTP_REQUESTS (snd (wrapped float_literal ''/items'' accepted_with_headers plain_get world0))
        (''GET'', ''/items'', 200) = 0
   \<and> HTTP_REQUESTS (snd (wrapped float_literal ''/items'' accepted_with_headers plain_get world0))
        (''GET'', ''/items'', 202) = 1"
  by (simp add: wrapped_def plain_get_simps accepted_with_headers_def record_metrics_requests
      status_of_response_def inc_def world0_def)

text \<open>
  C5 (amended). For every value \<open>v\<close> a handler returns normally, the request is counted
  under: the second element of \<open>v\<close> if \<open>v\<close> is a tuple of two or more elements whose
  second element is an integer; otherwise the attribute \<^verbatim>\<open>status_code\<close> of \<open>v\<close> if it
  has one; otherwise 200.
\<close>

theorem returned_value_status:
  assumes "\<not> truthy (args_get req ''fail'')"
    and "f (inject_delay float_of req s) = (Inr v, s2)"
  shows "HTTP_REQUESTS (snd (wrapped float_of route f req s)) =
           inc (HTTP_REQUESTS s2)
             (http_method req, route,
              (case v of PTuple (body # PInt n # rest) \<Rightarrow> n
                       | PResponse body sc \<Rightarrow> sc
                       | _ \<Rightarrow> 200))"
  using assms
  by (simp add: wrapped_run [where outcome = "Inr v" and ?s2.0 = s2]
      record_metrics_requests status_of_response_cases)

theorem returned_value_status_witness:
  "\<not> truthy (args_get plain_get ''fail'')
   \<and> accepted_with_headers (inject_delay float_literal plain_get world0)
       = (Inr (PTuple [PStr [], PInt 202, PDict []]), world0)
   \<and> HTTP_REQUESTS (snd (wrapped float_literal ''/items'' accepted_with_headers plain_get world0))
       = inc (HTTP_REQUESTS world0) (''GET'', ''/items'', 202)"
  using returned_value_status [of plain_get accepted_with_headers float_literal world0
      "PTuple [PStr [], PInt 202, PDict []]" world0 "''/items''"]
  by (simp add: plain_get_simps accepted_with_headers_def)

subsection \<open>The outcome handed back\<close>

text \<open>
  C6. When the handler is invoked, the wrapper hands back what the handler produced: the
  same exception raised again if it raised, the same value if it returned, in both cases
  after the recording step has run on the state the handler left.
\<close>

theorem outcome_passed_through:
  assumes "\<not> truthy (args_get req ''fail'')"
    and "f (inject_delay float_of req s) = (outcome, s2)"
  shows "fst (wrapped float_of route f req s) = outcome
         \<and> (\<exists>status duration.
               snd (wrapped float_of route f req s)
                 = record_metrics (http_method req) route status duration s2)"
  using assms
  by (simp add: wrapped_run [where outcome = outcome and ?s2.0 = s2]) blast

theorem outcome_passed_through_witness:
  "\<not> truthy (args_get plain_get ''fail'')
   \<and> get_item 7 (inject_delay float_literal plain_get store1) = (Inl (HTTPException (Some 404)), store1)
   \<and> fst (wrapped float_literal ''/items/<id>'' (get_item 7) plain_get store1)
       = Inl (HTTPException (Some 404))
   \<and> (\<exists>status duration.
         snd (wrapped float_literal ''/items/<id>'' (get_item 7) plain_get store1)
           = record_metrics ''GET'' ''/items/<id>'' status duration store1)
   \<and> fst (wrapped float_literal ''/items'' list_items plain_get store1)
       = Inr (jsonify (PList [item_dict \<lparr>ident = 1, payload = PDict []\<rparr>]))"
  using outcome_passed_through [of plain_get "get_item 7" float_literal store1
      "Inl (HTTPException (Some 404))" store1 "''/items/<id>''"]
    outcome_passed_through [of plain_get list_items float_literal store1
      "Inr (jsonify (PList [item_dict \<lparr>ident = 1, payload = PDict []\<rparr>]))" store1 "''/items''"]
  by (simp add: plain_get_simps get_item_7_store1 list_items_store1)

subsection \<open>The counters\<close>

text \<open>
  C7. For every recorded request, the slow-request counter of (method, route) is
  incremented when the measured time, the clock after the handler minus
  \<^verbatim>\<open>start\<close>, is 5 seconds or more, and no series of that family changes when it is
  below 5 seconds.
\<close>

theorem slow_counter_threshold:
  assumes "\<not> truthy (args_get req ''fail'')"
    and "f (inject_delay float_of req s) = (outcome, s2)"
  shows "HTTP_SLOW (snd (wrapped float_of route f req s)) =
           (if clock s2 - clock (inject_delay float_of req s) \<ge> 5
            then inc (HTTP_SLOW s2) (http_method req, route)
            else HTTP_SLOW s2)"
  using assms
  by (simp add: wrapped_run [where outcome = outcome and ?s2.0 = s2] record_metrics_slow)

theorem slow_counter_threshold_witness:
  "\<not> truthy (args_get plain_get ''fail'')
   \<and> HTTP_SLOW (snd (wrapped float_literal ''/items'' (lasting 5 list_items) plain_get store1))
        (''GET'', ''/items'') = 1
   \<and> HTTP_SLOW (snd (wrapped float_literal ''/items'' (lasting 4.999 list_items) plain_get store1))
        (''GET'', ''/items'') = 0"
  using slow_counter_threshold [of plain_get "lasting 5 list_items" float_literal store1
      "Inr (jsonify (PList [item_dict \<lparr>ident = 1, payload = PDict []\<rparr>]))"
      "store1\<lparr>clock := 5\<rparr>" "''/items''"]
    slow_counter_threshold [of plain_get "lasting 4.999 list_items" float_literal store1
      "Inr (jsonify (PList [item_dict \<lparr>ident = 1, payload = PDict []\<rparr>]))"
      "store1\<lparr>clock := 4.999\<rparr>" "''/items''"]
  by (simp add: plain_get_simps lasting_list_items_store1 inc_def)
     (simp add: store1_def world0_def)

text \<open>
  C8. For every recorded request with resolved code \<open>code\<close>, the request counter of
  (method, route, code) is incremented; the error counter of (method, route, code) is
  incremented if \<open>code\<close> is 500 or more and the error family is unchanged otherwise, so
  in particular for a code from 400 to 499. A request for an item whose identifier is not in
  the store resolves to 404, increments the request counter of 404 and leaves the error
  family as it was before the request.
\<close>

theorem error_counter_from_500:
  assumes "\<not> truthy (args_get req ''fail'')"
    and "f (inject_delay float_of req s) = (outcome, s2)"
    and "code = (case outcome of Inr response \<Rightarrow> status_of_response response
                               | Inl e \<Rightarrow> status_of_exception e)"
  shows "HTTP_REQUESTS (snd (wrapped float_of route f req s))
           = inc (HTTP_REQUESTS s2) (http_method req, route, code)
         \<and> HTTP_ERRORS (snd (wrapped float_of route f req s))
           = (if code \<ge> 500 then inc (HTTP_ERRORS s2) (http_method req, route, code)
              else HTTP_ERRORS s2)
         \<and> (400 \<le> code \<and> code \<le> 499 \<longrightarrow>
              HTTP_ERRORS (snd (wrapped float_of route f req s)) = HTTP_ERRORS s2)
         \<and> (f = get_item item_id \<and> item_id \<notin> ident ` set (items s) \<longrightarrow>
              code = 404
              \<and> HTTP_REQUESTS (snd (wrapped float_of route f req s))
                  = inc (HTTP_REQUESTS s) (http_method req, route, 404)
              \<and> HTTP_ERRORS (snd (wrapped float_of route f req s)) = HTTP_ERRORS s)"
proof -
  let ?s1 = "inject_delay float_of req s"
  let ?w = "snd (wrapped float_of route f req s)"
  have w: "?w = record_metrics (http_method req) route code (clock s2 - clock ?s1) s2"
    using assms by (simp add: wrapped_run [where outcome = outcome and ?s2.0 = s2])
  have r: "HTTP_REQUESTS ?w = inc (HTTP_REQUESTS s2) (http_method req, route, code)"
    by (simp add: w record_metrics_requests)
  have e: "HTTP_ERRORS ?w
             = (if code \<ge> 500 then inc (HTTP_ERRORS s2) (http_method req, route, code)
                else HTTP_ERRORS s2)"
    by (simp add: w record_metrics_errors)
  have c: "400 \<le> code \<and> code \<le> 499 \<longrightarrow> HTTP_ERRORS ?w = HTTP_ERRORS s2"
    by (simp add: e)
  have g: "code = 404 \<and> HTTP_REQUESTS ?w = inc (HTTP_REQUESTS s) (http_method req, route, 404)
           \<and> HTTP_ERRORS ?w = HTTP_ERRORS s"
    if "f = get_item item_id" and "item_id \<notin> ident ` set (items s)"
  proof -
    from that(2) have "item_id \<notin> ident ` set (items ?s1)"
      by (simp add: inject_delay_frame)
    then have "f ?s1 = (Inl (HTTPException (Some 404)), ?s1)"
      using that(1) by (simp add: get_item_absent)
    with assms(2) have o: "outcome = Inl (HTTPException (Some 404))" and s: "s2 = ?s1"
      by simp_all
    from o assms(3) have k: "code = 404" by simp
    show ?thesis
      by (simp add: k r [unfolded k] e [unfolded k] s inject_delay_frame)
  qed
  from r e c g show ?thesis by blast
qed

theorem error_counter_from_500_witness:
  "\<not> truthy (args_get plain_get ''fail'')
   \<and> get_item 7 (inject_delay float_literal plain_get store1) = (Inl (HTTPException (Some 404)), store1)
   \<and> (400::int) \<le> 404 \<and> (404::int) \<le> 499 \<and> 7 \<notin> ident ` set (items store1)
   \<and> HTTP_REQUESTS (snd (wrapped float_literal ''/items/<id>'' (get_item 7) plain_get store1))
        (''GET'', ''/items/<id>'', 404) = 1
   \<and> HTTP_ERRORS (snd (wrapped float_literal ''/items/<id>'' (get_item 7) plain_get store1))
        = HTTP_ERRORS store1"
  using error_counter_from_500 [of plain_get "get_item 7" float_literal store1
      "Inl (HTTPException (Some 404))" store1 404 "''/items/<id>''" 7]
  by (simp add: plain_get_simps get_item_7_store1 inc_def) (simp add: store1_def world0_def)

subsection \<open>Delays that are dropped\<close>

text \<open>
  C9. A request whose \<^verbatim>\<open>delay\<close> parameter is absent, empty, or rejected by
  \<^verbatim>\<open>float\<close> is treated as having no delay: the clock is not moved, the call gives
  what the same request without the parameter gives, and when no failure is forced the
  handler runs in the state the request found, its outcome is handed back and the metrics
  are recorded.
\<close>

theorem unparsable_delay_ignored:
  assumes "args_get req ''delay'' = None
           \<or> args_get req ''delay'' = Some []
           \<or> (\<exists>d e. args_get req ''delay'' = Some d \<and> float_of d = Inl e)"
  shows "inject_delay float_of req s = s
         \<and> wrapped float_of route f req s
             = wrapped float_of route f (without_param ''delay'' req) s
         \<and> (\<not> truthy (args_get req ''fail'') \<longrightarrow>
              wrapped float_of route f req s =
                (fst (f s),
                 record_metrics (http_method req) route
                   (case fst (f s) of Inr response \<Rightarrow> status_of_response response
                                    | Inl e \<Rightarrow> status_of_exception e)
                   (clock (snd (f s)) - clock s) (snd (f s))))"
proof -
  from assms have d: "inject_delay float_of req s = s"
    by (auto simp: inject_delay_def)
  show ?thesis
    using d wrapped_without_delay [OF d] wrapped_no_delay [OF d] by simp
qed

theorem unparsable_delay_ignored_witness:
  "args_get bad_delay_get ''delay'' = Some ''abc''
   \<and> float_literal ''abc'' = Inl (OtherException ''ValueError'')
   \<and> \<not> truthy (args_get bad_delay_get ''fail'')
   \<and> inject_delay float_literal bad_delay_get store1 = store1
   \<and> wrapped float_literal ''/items'' list_items bad_delay_get store1
       = wrapped float_literal ''/items'' list_items plain_get store1
   \<and> wrapped float_literal ''/items'' list_items bad_delay_get store1
       = (Inr (jsonify (PList [item_dict \<lparr>ident = 1, payload = PDict []\<rparr>])),
          record_metrics ''GET'' ''/items'' 200 0 store1)"
proof -
  have a: "args_get bad_delay_get ''delay'' = Some ''abc''"
    by (simp add: bad_delay_get_def args_get_def)
  have n: "\<not> truthy (args_get bad_delay_get ''fail'')"
    by (simp add: bad_delay_get_def args_get_def truthy_def)
  have w: "without_param ''delay'' bad_delay_get = plain_get"
    by (simp add: bad_delay_get_def plain_get_def without_param_def)
  have m: "http_method bad_delay_get = ''GET''"
    by (simp add: bad_delay_get_def)
  have h: "args_get bad_delay_get ''delay'' = None
           \<or> args_get bad_delay_get ''delay'' = Some []
           \<or> (\<exists>d e. args_get bad_delay_get ''delay'' = Some d \<and> float_literal d = Inl e)"
    using a float_literal_abc by simp
  note t = unparsable_delay_ignored [OF h, of store1 "''/items''" list_items]
  from t have d: "inject_delay float_literal bad_delay_get store1 = store1"
    by blast
  from t have e: "wrapped float_literal ''/items'' list_items bad_delay_get store1
                    = wrapped float_literal ''/items'' list_items plain_get store1"
    by (simp only: w)
  from t [THEN conjunct2, THEN conjunct2, THEN mp, OF n]
  have r: "wrapped float_literal ''/items'' list_items bad_delay_get store1
                    = (Inr (jsonify (PList [item_dict \<lparr>ident = 1, payload = PDict []\<rparr>])),
                       record_metrics ''GET'' ''/items'' 200 0 store1)"
    by (simp add: m list_items_store1 jsonify_def status_of_response_def)
  from a float_literal_abc n d e r show ?thesis
    by blast
qed

text \<open>
  C10. A request whose \<^verbatim>\<open>delay\<close> parses to a negative number: \<^verbatim>\<open>time.sleep\<close>
  raises \<^verbatim>\<open>ValueError\<close>, the exception is dropped, and the request behaves as the
  same request without the parameter: the clock is not moved, and when no failure is forced
  the handler runs, its outcome is handed back and the metrics are recorded.
\<close>

theorem negative_delay_ignored:
  assumes "args_get req ''delay'' = Some d"
    and "float_of d = Inr (Finite x)"
    and "x < 0"
  shows "time_sleep (Finite x) s = Inl (OtherException ''ValueError'')
         \<and> inject_delay float_of req s = s
         \<and> wrapped float_of route f req s
             = wrapped float_of route f (without_param ''delay'' req) s
         \<and> (\<not> truthy (args_get req ''fail'') \<longrightarrow>
              wrapped float_of route f req s =
                (fst (f s),
                 record_metrics (http_method req) route
                   (case fst (f s) of Inr response \<Rightarrow> status_of_response response
                                    | Inl e \<Rightarrow> status_of_exception e)
                   (clock (snd (f s)) - clock s) (snd (f s))))"
proof -
  from assms have t: "time_sleep (Finite x) s = Inl (OtherException ''ValueError'')"
    by simp
  from assms t have d: "inject_delay float_of req s = s"
    by (simp add: inject_delay_def)
  show ?thesis
    using t d wrapped_without_delay [OF d] wrapped_no_delay [OF d] by simp
qed

theorem negative_delay_ignored_witness:
  "args_get negative_delay_get ''delay'' = Some ''-1''
   \<and> float_literal ''-1'' = Inr (Finite (- 1))
   \<and> (- 1 :: real) < 0
   \<and> \<not> truthy (args_get negative_delay_get ''fail'')
   \<and> inject_delay float_literal negative_delay_get store1 = store1
   \<and> wrapped float_literal ''/items'' list_items negative_delay_get store1
       = wrapped float_literal ''/items'' list_items plain_get store1
   \<and> wrapped float_literal ''/items'' list_items negative_delay_get store1
       = (Inr (jsonify (PList [item_dict \<lparr>ident = 1, payload = PDict []\<rparr>])),
          record_metrics ''GET'' ''/items'' 200 0 store1)"
proof -
  have a: "args_get negative_delay_get ''delay'' = Some ''-1''"
    by (simp add: negative_delay_get_def args_get_def)
  have n: "\<not> truthy (args_get negative_delay_get ''fail'')"
    by (simp add: negative_delay_get_def args_get_def truthy_def)
  have w: "without_param ''delay'' negative_delay_get = plain_get"
    by (simp add: negative_delay_get_def plain_get_def without_param_def)
  have m: "http_method negative_delay_get = ''GET''"
    by (simp add: negative_delay_get_def)
  have x: "(- 1 :: real) < 0"
    by simp
  note t = negative_delay_ignored [of negative_delay_get "''-1''" float_literal "- 1" store1
      "''/items''" list_items, OF a float_literal_minus_1 x]
  from t have d: "inject_delay float_literal negative_delay_get store1 = store1"
    by blast
  from t have e: "wrapped float_literal ''/items'' list_items negative_delay_get store1
                    = wrapped float_literal ''/items'' list_items plain_get store1"
    by (simp only: w)
  from t [THEN conjunct2, THEN conjunct2, THEN conjunct2, THEN mp, OF n]
  have r: "wrapped float_literal ''/items'' list_items negative_delay_get store1
                    = (Inr (jsonify (PList [item_dict \<lparr>ident = 1, payload = PDict []\<rparr>])),
                       record_metrics ''GET'' ''/items'' 200 0 store1)"
    by (simp add: m list_items_store1 jsonify_def status_of_response_def)
  from a float_literal_minus_1 x n d e r show ?thesis
    by blast
qed

end
